theory Spec2Isabelle
  imports Complex_Main "HOL-Library.Sublist"
begin

section \<open>Broadcast hub (internal/api/websocket.go)\<close>

text \<open>
  A buffered Go channel is a queue with a fixed capacity. The only channel operation the
  hub's \<^verbatim>\<open>Broadcast\<close> performs is a send inside a \<^verbatim>\<open>select\<close> with a
  \<^verbatim>\<open>default\<close> branch: it succeeds when the buffer has room and otherwise falls through
  to \<^verbatim>\<open>default\<close>; it never waits. \<open>try_send\<close> returns the channel after the send, or
  \<open>None\<close> when the \<^verbatim>\<open>default\<close> branch is taken.
\<close>

record 'a chan =
  buf :: "'a list"
  cap :: nat

definition make_chan :: "nat \<Rightarrow> 'a chan" where
  "make_chan n = \<lparr>buf = [], cap = n\<rparr>"

definition chan_full :: "'a chan \<Rightarrow> bool" where
  "chan_full ch = (cap ch \<le> length (buf ch))"

definition try_send :: "'a chan \<Rightarrow> 'a \<Rightarrow> 'a chan option" where
  "try_send ch x = (if chan_full ch then None else Some (ch\<lparr>buf := buf ch @ [x]\<rparr>))"

text \<open>\<^verbatim>\<open>Message\<close>: a type tag and a payload; the payload type is left open.\<close>

record 'd Message =
  msg_Type :: string
  msg_Data :: 'd

text \<open>
  \<^verbatim>\<open>WebSocketHub\<close>: the subscriber set (connections are identified by numbers), the
  publish queue and the shutdown flag. The unbuffered register and unregister channels
  carry no state between operations.
\<close>

record 'd WebSocketHub =
  clients :: "nat set"
  broadcast :: "'d Message chan"
  hub_done :: bool

definition NewWebSocketHub :: "'d WebSocketHub" where
  "NewWebSocketHub = \<lparr>clients = {}, broadcast = make_chan 256, hub_done = False\<rparr>"

definition drop_log :: string where
  "drop_log = ''WebSocket broadcast buffer full, dropping message''"

text \<open>
  \<^verbatim>\<open>Broadcast\<close> returns the hub after the call and the log lines written by the call.
\<close>

definition Broadcast :: "'d WebSocketHub \<Rightarrow> 'd Message \<Rightarrow> 'd WebSocketHub \<times> string list" where
  "Broadcast h msg =
     (case try_send (broadcast h) msg of
        Some ch \<Rightarrow> (h\<lparr>broadcast := ch\<rparr>, [])
      | None \<Rightarrow> (h, [drop_log]))"

text \<open>\<^verbatim>\<open>Stop\<close> closes the \<^verbatim>\<open>done\<close> channel.\<close>

definition Stop :: "'d WebSocketHub \<Rightarrow> 'd WebSocketHub" where
  "Stop h = h\<lparr>hub_done := True\<rparr>"

text \<open>
  The cases of the control loop \<^verbatim>\<open>Run\<close>: shutdown (after which the loop returns), a
  registration, an unregistration,
  and the delivery of the next queued message to every subscriber. A delivery is given
  the set of connections on which the write fails. Each case returns the hub, the
  connections it closed and the connections it queued for unregistration.
\<close>

datatype hubEvent = HubDone | HubRegister nat | HubUnregister nat | HubDeliver "nat set"

fun Run_case :: "'d WebSocketHub \<Rightarrow> hubEvent \<Rightarrow> 'd WebSocketHub \<times> nat set \<times> nat set" where
  "Run_case h HubDone = (h\<lparr>clients := {}\<rparr>, clients h, {})"
| "Run_case h (HubRegister conn) = (h\<lparr>clients := insert conn (clients h)\<rparr>, {}, {})"
| "Run_case h (HubUnregister conn) =
     (if conn \<in> clients h then (h\<lparr>clients := clients h - {conn}\<rparr>, {conn}, {})
      else (h, {}, {}))"
| "Run_case h (HubDeliver failing) =
     (case buf (broadcast h) of
        [] \<Rightarrow> (h, {}, {})
      | msg # queued \<Rightarrow>
          (h\<lparr>broadcast := (broadcast h)\<lparr>buf := queued\<rparr>\<rparr>, {}, clients h \<inter> failing))"

text \<open>A history of the hub: calls of \<^verbatim>\<open>Broadcast\<close> interleaved with cases of the
  control loop, from \<^verbatim>\<open>NewWebSocketHub\<close> on.\<close>

datatype 'd hubOp = Publish "'d Message" | Loop hubEvent

fun hubApply :: "'d WebSocketHub \<Rightarrow> 'd hubOp \<Rightarrow> 'd WebSocketHub" where
  "hubApply h (Publish msg) = fst (Broadcast h msg)"
| "hubApply h (Loop ev) = fst (Run_case h ev)"

definition hubRun :: "'d hubOp list \<Rightarrow> 'd WebSocketHub" where
  "hubRun ops = foldl hubApply NewWebSocketHub ops"

section \<open>Session registry (internal/collector/collector.go)\<close>

text \<open>
  Instants are nanoseconds counted from the zero value of \<^verbatim>\<open>time.Time\<close>, so the zero
  instant is \<open>0\<close>. A \<^verbatim>\<open>time.Duration\<close> is a number of nanoseconds.
\<close>

type_synonym Time = int
type_synonym Duration = int









section \<open>Alert engine (AlertEngine)\<close>

subsection \<open>Data\<close>

datatype AlertType =
    AlertMinerOffline | AlertTempHigh | AlertHashrateDrop | AlertShareRejected
  | AlertPoolDisconnected | AlertFanLow | AlertWifiWeak | AlertNewBestDiff
  | AlertBlockFound | AlertNewLeader

fun alertTypeString :: "AlertType \<Rightarrow> string" where
  "alertTypeString AlertMinerOffline = ''miner_offline''"
| "alertTypeString AlertTempHigh = ''temp_high''"
| "alertTypeString AlertHashrateDrop = ''hashrate_drop''"
| "alertTypeString AlertShareRejected = ''share_rejected''"
| "alertTypeString AlertPoolDisconnected = ''pool_disconnected''"
| "alertTypeString AlertFanLow = ''fan_low''"
| "alertTypeString AlertWifiWeak = ''wifi_weak''"
| "alertTypeString AlertNewBestDiff = ''new_best_diff''"
| "alertTypeString AlertBlockFound = ''block_found''"
| "alertTypeString AlertNewLeader = ''new_leader''"

text \<open>
  \<^verbatim>\<open>float64\<close> fields are modelled as real numbers: the comparisons and the arithmetic of
  the engine are those of the reals, without rounding and without NaN or infinities.
  \<^verbatim>\<open>int\<close> fields are only compared and converted, so they are integers.
\<close>

record AlertConfig =
  WebhookURL :: string
  MinerOfflineSeconds :: int
  TempAbove :: real
  HashrateDropPercent :: real
  FanRPMBelow :: int
  WifiSignalBelow :: int
  OnShareRejected :: bool
  OnPoolDisconnected :: bool
  OnNewBestDiff :: bool
  OnBlockFound :: bool
  OnNewLeader :: bool

text \<open>The fields of the storage records that the engine reads.\<close>

record MinerSnapshot =
  snap_MinerIP :: string
  snap_Hostname :: string
  snap_HashRate :: real
  snap_Temperature :: real
  snap_FanRPM :: int
  snap_BestDiffSess :: real
  snap_PoolConnected :: bool
  snap_WifiRSSI :: int

record Share =
  share_MinerIP :: string
  share_Hostname :: string
  share_Timestamp :: Time
  share_AsicNum :: int
  share_Difficulty :: real
  share_JobID :: string

record Miner =
  miner_IP :: string
  miner_Hostname :: string
  miner_Enabled :: bool

record Block =
  block_MinerIP :: string
  block_Hostname :: string
  block_Timestamp :: Time
  block_Difficulty :: real
  block_NetworkDifficulty :: real

text \<open>
  \<^verbatim>\<open>Alert\<close> without its presentation fields (the formatted message and the embed
  fields), which no rule of the engine reads.
\<close>

record Alert =
  alert_Type :: AlertType
  alert_MinerIP :: string
  alert_MinerName :: string
  alert_Value :: real
  alert_Timestamp :: Time

record AlertEngine =
  config :: AlertConfig
  lastSeen :: "string \<rightharpoonup> Time"
  lastHashrate :: "string \<rightharpoonup> real"
  lastBestDiff :: "string \<rightharpoonup> real"
  alertCooldown :: "string \<rightharpoonup> Time"
  weeklyBestDiff :: real
  weeklyLeader :: string
  weekStart :: Time

text \<open>
  What the engine does with an alert it has decided to emit: with no webhook configured
  the alert is written to the log, otherwise its payload is posted to the webhook by a
  new goroutine. \<^verbatim>\<open>buildDiscordPayload\<close> marshals strings, numbers and booleans only, so
  its error branch is never taken.
\<close>

datatype delivery = Logged Alert | Posted string Alert

fun alert_of :: "delivery \<Rightarrow> Alert" where
  "alert_of (Logged a) = a"
| "alert_of (Posted url a) = a"

definition deliver :: "AlertEngine \<Rightarrow> Alert \<Rightarrow> delivery" where
  "deliver e a =
     (if WebhookURL (config e) = [] then Logged a else Posted (WebhookURL (config e)) a)"

subsection \<open>Time\<close>

definition time_Second :: Duration where
  "time_Second = 1000000000"

definition time_Minute :: Duration where
  "time_Minute = 60 * time_Second"

definition maxDuration :: Duration where
  "maxDuration = 2 ^ 63 - 1"

definition minDuration :: Duration where
  "minDuration = - (2 ^ 63)"

text \<open>\<^verbatim>\<open>time.Since(t)\<close> at instant \<open>now\<close>: the difference, saturated to the range of
  \<^verbatim>\<open>Duration\<close>.\<close>

definition time_Since :: "Time \<Rightarrow> Time \<Rightarrow> Duration" where
  "time_Since now t = max minDuration (min maxDuration (now - t))"

text \<open>The value of a 64-bit signed product or conversion: wrap-around into the range.\<close>

definition wrap64 :: "int \<Rightarrow> int" where
  "wrap64 x = (x + 2 ^ 63) mod 2 ^ 64 - 2 ^ 63"

subsection \<open>Construction and seeding\<close>

text \<open>
  \<^verbatim>\<open>currentWeekStart()\<close> reads the clock and the local calendar; every operation that
  calls it takes its result as the argument \<open>ws\<close>.
\<close>

definition NewAlertEngine :: "AlertConfig \<Rightarrow> Time \<Rightarrow> AlertEngine" where
  "NewAlertEngine cfg ws =
     \<lparr>config = cfg, lastSeen = Map.empty, lastHashrate = Map.empty,
      lastBestDiff = Map.empty, alertCooldown = Map.empty,
      weeklyBestDiff = 0, weeklyLeader = [], weekStart = ws\<rparr>"

definition InitWeeklyLeader :: "AlertEngine \<Rightarrow> string \<Rightarrow> real \<Rightarrow> Time \<Rightarrow> AlertEngine" where
  "InitWeeklyLeader e leader bestDiff ws =
     e\<lparr>weeklyLeader := leader, weeklyBestDiff := bestDiff, weekStart := ws\<rparr>"

text \<open>
  \<^verbatim>\<open>Server.initWeeklyLeader\<close>: the loop over the miners keeps the best share of the week.
  The store's answer for each miner is an argument: \<open>None\<close> stands for an error or for no
  share in the range.
\<close>

fun weeklyBestLoop :: "Share option list \<Rightarrow> real \<times> string \<Rightarrow> real \<times> string" where
  "weeklyBestLoop [] acc = acc"
| "weeklyBestLoop (None # rest) acc = weeklyBestLoop rest acc"
| "weeklyBestLoop (Some share # rest) (bestDiff, leader) =
     (if share_Difficulty share > bestDiff
      then weeklyBestLoop rest (share_Difficulty share, share_Hostname share)
      else weeklyBestLoop rest (bestDiff, leader))"

definition initWeeklyLeader :: "AlertEngine \<Rightarrow> Share option list \<Rightarrow> Time \<Rightarrow> AlertEngine" where
  "initWeeklyLeader e best ws =
     (case weeklyBestLoop best (0, []) of
        (bestDiff, leader) \<Rightarrow> InitWeeklyLeader e leader bestDiff ws)"

subsection \<open>sendAlert: delivery behind the cooldown\<close>

definition cooldownKey :: "Alert \<Rightarrow> string" where
  "cooldownKey a = alert_MinerIP a @ '':'' @ alertTypeString (alert_Type a)"

text \<open>
  \<^verbatim>\<open>sendAlert\<close> at instant \<open>now\<close> returns the engine after the call and the deliveries
  the call made.
\<close>

definition sendAlert :: "AlertEngine \<Rightarrow> Alert \<Rightarrow> Time \<Rightarrow> AlertEngine \<times> delivery list" where
  "sendAlert e a now =
     (let fire = (e\<lparr>alertCooldown := (alertCooldown e)(cooldownKey a \<mapsto> now)\<rparr>, [deliver e a])
      in case alertCooldown e (cooldownKey a) of
           Some lastAlert \<Rightarrow>
             if time_Since now lastAlert < 5 * time_Minute then (e, []) else fire
         | None \<Rightarrow> fire)"

subsection \<open>CheckSnapshot\<close>

text \<open>
  The six checks of \<^verbatim>\<open>CheckSnapshot\<close>, in the order of the source. The clock reads of one
  call are one instant \<open>now\<close>.
\<close>

definition checkTemperature :: "AlertEngine \<Rightarrow> MinerSnapshot \<Rightarrow> Time \<Rightarrow> AlertEngine \<times> delivery list" where
  "checkTemperature e snap now =
     (if TempAbove (config e) > 0 \<and> snap_Temperature snap > TempAbove (config e)
      then sendAlert e
             \<lparr>alert_Type = AlertTempHigh, alert_MinerIP = snap_MinerIP snap,
              alert_MinerName = snap_Hostname snap, alert_Value = snap_Temperature snap,
              alert_Timestamp = now\<rparr> now
      else (e, []))"

definition checkHashrateDrop :: "AlertEngine \<Rightarrow> MinerSnapshot \<Rightarrow> Time \<Rightarrow> AlertEngine \<times> delivery list" where
  "checkHashrateDrop e snap now =
     (case lastHashrate e (snap_MinerIP snap) of
        Some lastHash \<Rightarrow>
          if lastHash > 0
          then (let dropPercent = ((lastHash - snap_HashRate snap) / lastHash) * 100
                in if HashrateDropPercent (config e) > 0
                      \<and> dropPercent > HashrateDropPercent (config e)
                   then sendAlert e
                          \<lparr>alert_Type = AlertHashrateDrop, alert_MinerIP = snap_MinerIP snap,
                           alert_MinerName = snap_Hostname snap, alert_Value = dropPercent,
                           alert_Timestamp = now\<rparr> now
                   else (e, []))
          else (e, [])
      | None \<Rightarrow> (e, []))"

definition checkFanRPM :: "AlertEngine \<Rightarrow> MinerSnapshot \<Rightarrow> Time \<Rightarrow> AlertEngine \<times> delivery list" where
  "checkFanRPM e snap now =
     (if FanRPMBelow (config e) > 0 \<and> snap_FanRPM snap < FanRPMBelow (config e)
         \<and> snap_FanRPM snap > 0
      then sendAlert e
             \<lparr>alert_Type = AlertFanLow, alert_MinerIP = snap_MinerIP snap,
              alert_MinerName = snap_Hostname snap, alert_Value = of_int (snap_FanRPM snap),
              alert_Timestamp = now\<rparr> now
      else (e, []))"

definition checkWifiSignal :: "AlertEngine \<Rightarrow> MinerSnapshot \<Rightarrow> Time \<Rightarrow> AlertEngine \<times> delivery list" where
  "checkWifiSignal e snap now =
     (if WifiSignalBelow (config e) < 0 \<and> snap_WifiRSSI snap < WifiSignalBelow (config e)
      then sendAlert e
             \<lparr>alert_Type = AlertWifiWeak, alert_MinerIP = snap_MinerIP snap,
              alert_MinerName = snap_Hostname snap, alert_Value = of_int (snap_WifiRSSI snap),
              alert_Timestamp = now\<rparr> now
      else (e, []))"

definition checkPoolConnection :: "AlertEngine \<Rightarrow> MinerSnapshot \<Rightarrow> Time \<Rightarrow> AlertEngine \<times> delivery list" where
  "checkPoolConnection e snap now =
     (if OnPoolDisconnected (config e) \<and> \<not> snap_PoolConnected snap
      then sendAlert e
             \<lparr>alert_Type = AlertPoolDisconnected, alert_MinerIP = snap_MinerIP snap,
              alert_MinerName = snap_Hostname snap, alert_Value = 0,
              alert_Timestamp = now\<rparr> now
      else (e, []))"

definition checkNewBestDiff :: "AlertEngine \<Rightarrow> MinerSnapshot \<Rightarrow> Time \<Rightarrow> AlertEngine \<times> delivery list" where
  "checkNewBestDiff e snap now =
     (if OnNewBestDiff (config e)
      then (case lastBestDiff e (snap_MinerIP snap) of
              Some lastBest \<Rightarrow>
                if snap_BestDiffSess snap > lastBest
                then sendAlert e
                       \<lparr>alert_Type = AlertNewBestDiff, alert_MinerIP = snap_MinerIP snap,
                        alert_MinerName = snap_Hostname snap,
                        alert_Value = snap_BestDiffSess snap, alert_Timestamp = now\<rparr> now
                else (e, [])
            | None \<Rightarrow> (e, []))
      else (e, []))"

definition CheckSnapshot :: "AlertEngine \<Rightarrow> MinerSnapshot \<Rightarrow> Time \<Rightarrow> AlertEngine \<times> delivery list" where
  "CheckSnapshot e snap now =
     (let minerKey = snap_MinerIP snap;
          e0 = e\<lparr>lastSeen := (lastSeen e)(minerKey \<mapsto> now)\<rparr>;
          (e1, o1) = checkTemperature e0 snap now;
          (e2, o2) = checkHashrateDrop e1 snap now;
          e2' = e2\<lparr>lastHashrate := (lastHashrate e2)(minerKey \<mapsto> snap_HashRate snap)\<rparr>;
          (e3, o3) = checkFanRPM e2' snap now;
          (e4, o4) = checkWifiSignal e3 snap now;
          (e5, o5) = checkPoolConnection e4 snap now;
          (e6, o6) = checkNewBestDiff e5 snap now
      in (e6\<lparr>lastBestDiff := (lastBestDiff e6)(minerKey \<mapsto> snap_BestDiffSess snap)\<rparr>,
          o1 @ o2 @ o3 @ o4 @ o5 @ o6))"

subsection \<open>CheckShare, CheckBlock, CheckLeaderChange, CheckOffline\<close>

definition CheckShare :: "AlertEngine \<Rightarrow> Share \<Rightarrow> bool \<Rightarrow> Time \<Rightarrow> AlertEngine \<times> delivery list" where
  "CheckShare e share rejected now =
     (if \<not> OnShareRejected (config e) \<or> \<not> rejected then (e, [])
      else sendAlert e
             \<lparr>alert_Type = AlertShareRejected, alert_MinerIP = share_MinerIP share,
              alert_MinerName = share_Hostname share, alert_Value = share_Difficulty share,
              alert_Timestamp = now\<rparr> now)"

text \<open>\<^verbatim>\<open>CheckBlock\<close> and \<^verbatim>\<open>CheckLeaderChange\<close> deliver by themselves, not through
  \<^verbatim>\<open>sendAlert\<close>.\<close>

definition CheckBlock :: "AlertEngine \<Rightarrow> Block \<Rightarrow> AlertEngine \<times> delivery list" where
  "CheckBlock e block =
     (if \<not> OnBlockFound (config e) then (e, [])
      else (e, [deliver e
                  \<lparr>alert_Type = AlertBlockFound, alert_MinerIP = block_MinerIP block,
                   alert_MinerName = block_Hostname block, alert_Value = 0,
                   alert_Timestamp = block_Timestamp block\<rparr>]))"

definition weekReset :: "AlertEngine \<Rightarrow> Time \<Rightarrow> AlertEngine" where
  "weekReset e ws =
     (if ws > weekStart e
      then e\<lparr>weeklyBestDiff := 0, weeklyLeader := [], weekStart := ws\<rparr>
      else e)"

definition CheckLeaderChange :: "AlertEngine \<Rightarrow> Share \<Rightarrow> Time \<Rightarrow> AlertEngine \<times> delivery list" where
  "CheckLeaderChange e share ws =
     (if \<not> OnNewLeader (config e) then (e, [])
      else (let e1 = weekReset e ws
            in if share_Difficulty share \<le> weeklyBestDiff e1 then (e1, [])
               else (let previousLeader = weeklyLeader e1;
                         e2 = e1\<lparr>weeklyBestDiff := share_Difficulty share,
                                 weeklyLeader := share_Hostname share\<rparr>
                     in if previousLeader = [] \<or> previousLeader = share_Hostname share
                        then (e2, [])
                        else (e2, [deliver e2
                                     \<lparr>alert_Type = AlertNewLeader,
                                      alert_MinerIP = share_MinerIP share,
                                      alert_MinerName = share_Hostname share,
                                      alert_Value = 0,
                                      alert_Timestamp = share_Timestamp share\<rparr>]))))"

text \<open>The offline threshold: \<^verbatim>\<open>time.Duration(seconds) * time.Second\<close>, a 64-bit product.\<close>

definition offlineThreshold :: "AlertConfig \<Rightarrow> Duration" where
  "offlineThreshold cfg = wrap64 (MinerOfflineSeconds cfg * time_Second)"

fun checkOfflineLoop :: "Duration \<Rightarrow> Time \<Rightarrow> Miner list \<Rightarrow> AlertEngine \<Rightarrow> AlertEngine \<times> delivery list" where
  "checkOfflineLoop threshold now [] e = (e, [])"
| "checkOfflineLoop threshold now (miner # rest) e =
     (if \<not> miner_Enabled miner then checkOfflineLoop threshold now rest e
      else case lastSeen e (miner_IP miner) of
             None \<Rightarrow> checkOfflineLoop threshold now rest e
           | Some seen \<Rightarrow>
               if time_Since now seen > threshold
               then (case sendAlert e
                             \<lparr>alert_Type = AlertMinerOffline, alert_MinerIP = miner_IP miner,
                              alert_MinerName = miner_Hostname miner, alert_Value = 0,
                              alert_Timestamp = now\<rparr> now of
                       (e1, o1) \<Rightarrow>
                         (case checkOfflineLoop threshold now rest e1 of
                            (e2, o2) \<Rightarrow> (e2, o1 @ o2)))
               else checkOfflineLoop threshold now rest e)"

definition CheckOffline :: "AlertEngine \<Rightarrow> Miner list \<Rightarrow> Time \<Rightarrow> AlertEngine \<times> delivery list" where
  "CheckOffline e ms now =
     (if MinerOfflineSeconds (config e) \<le> 0 then (e, [])
      else checkOfflineLoop (offlineThreshold (config e)) now ms e)"

subsection \<open>Scenarios\<close>

text \<open>A sequence of alerts handed to \<^verbatim>\<open>sendAlert\<close> one after the other, each at its
  own instant.\<close>

fun sendAll :: "AlertEngine \<Rightarrow> (Alert \<times> Time) list \<Rightarrow> AlertEngine \<times> delivery list" where
  "sendAll e [] = (e, [])"
| "sendAll e ((a, t) # rest) =
     (case sendAlert e a t of
        (e1, o1) \<Rightarrow> (case sendAll e1 rest of (e2, o2) \<Rightarrow> (e2, o1 @ o2)))"

text \<open>A configuration with every rule enabled and no webhook, and an alert of a given
  kind for a given device.\<close>

definition exampleConfig :: AlertConfig where
  "exampleConfig =
     \<lparr>WebhookURL = [], MinerOfflineSeconds = 300, TempAbove = 70, HashrateDropPercent = 20,
      FanRPMBelow = 1000, WifiSignalBelow = - 80, OnShareRejected = True,
      OnPoolDisconnected = True, OnNewBestDiff = True, OnBlockFound = True,
      OnNewLeader = True\<rparr>"

definition exampleAlert :: "AlertType \<Rightarrow> string \<Rightarrow> Alert" where
  "exampleAlert t ip =
     \<lparr>alert_Type = t, alert_MinerIP = ip, alert_MinerName = ''bitaxe'', alert_Value = 0,
      alert_Timestamp = 0\<rparr>"

text \<open>Auxiliary notions for the statements about \<^verbatim>\<open>CheckSnapshot\<close>: what one gated
  check may change, and the deliveries of one kind.\<close>

definition gated_step :: "AlertType \<Rightarrow> string \<Rightarrow> AlertEngine \<Rightarrow> AlertEngine \<times> delivery list \<Rightarrow> bool" where
  "gated_step t ip e r \<longleftrightarrow>
     (\<exists>cd. fst r = e\<lparr>alertCooldown := cd\<rparr>
        \<and> (\<forall>k. k \<noteq> ip @ '':'' @ alertTypeString t \<longrightarrow> cd k = alertCooldown e k))
     \<and> (\<forall>d \<in> set (snd r). alert_Type (alert_of d) = t \<and> alert_MinerIP (alert_of d) = ip)"

definition of_kind :: "AlertType \<Rightarrow> delivery \<Rightarrow> bool" where
  "of_kind t d = (alert_Type (alert_of d) = t)"

definition exampleSnapshot :: "string \<Rightarrow> real \<Rightarrow> int \<Rightarrow> MinerSnapshot" where
  "exampleSnapshot ip hashrate rpm =
     \<lparr>snap_MinerIP = ip, snap_Hostname = ''bitaxe'', snap_HashRate = hashrate,
      snap_Temperature = 55, snap_FanRPM = rpm, snap_BestDiffSess = 1000,
      snap_PoolConnected = True, snap_WifiRSSI = - 50\<rparr>"

definition exampleMiner :: "string \<Rightarrow> bool \<Rightarrow> Miner" where
  "exampleMiner ip enabled = \<lparr>miner_IP = ip, miner_Hostname = ''bitaxe'', miner_Enabled = enabled\<rparr>"

definition exampleShare :: "string \<Rightarrow> string \<Rightarrow> real \<Rightarrow> Share" where
  "exampleShare ip host diff =
     \<lparr>share_MinerIP = ip, share_Hostname = host, share_Timestamp = 0, share_AsicNum = 0,
      share_Difficulty = diff, share_JobID = ''18''\<rparr>"

section \<open>Scenarios of the registry and of the whole pipeline\<close>














section \<open>Share parser (ShareParser.Parse)\<close>

subsection \<open>The patterns\<close>










subsection \<open>Numbers\<close>





subsection \<open>Parse\<close>



subsection \<open>Well-formed share lines\<close>







subsection \<open>Lines without a share\<close>










subsection \<open>Auxiliary notions for the parser's proofs\<close>



section \<open>Properties of the broadcast hub\<close>

lemma hubApply_bounded:
  assumes "cap (broadcast h) = 256" "length (buf (broadcast h)) \<le> 256"
  shows "cap (broadcast (hubApply h op)) = 256 \<and> length (buf (broadcast (hubApply h op))) \<le> 256"
proof (cases op)
  case (Publish msg)
  with assms show ?thesis
    by (auto simp: Broadcast_def try_send_def chan_full_def)
next
  case (Loop ev)
  with assms show ?thesis
    by (cases ev) (auto split: list.splits)
qed

lemma hubRun_bounded:
  "cap (broadcast (hubRun ops)) = 256 \<and> length (buf (broadcast (hubRun ops))) \<le> 256"
proof (induction ops rule: rev_induct)
  case Nil
  then show ?case by (simp add: hubRun_def NewWebSocketHub_def make_chan_def)
next
  case (snoc op ops)
  have "hubRun (ops @ [op]) = hubApply (hubRun ops) op" by (simp add: hubRun_def)
  with snoc hubApply_bounded [of "hubRun ops" op] show ?case by simp
qed

text \<open>
  Claim C7. \<^verbatim>\<open>Broadcast\<close> on a hub whose publish queue is full returns with the hub
  unchanged (same queue contents, same subscriber set) and writes the drop log line; on a
  hub whose queue has room it appends the message to the queue and logs nothing. In both
  cases the call returns a result (there is no branch in which it waits) and leaves the
  subscriber set as it was. In every history of the hub the queue holds at most 256
  messages.
\<close>

theorem Broadcast_full_drops:
  "(chan_full (broadcast h) \<longrightarrow> Broadcast h msg = (h, [drop_log]))
   \<and> (\<not> chan_full (broadcast h) \<longrightarrow>
        Broadcast h msg =
          (h\<lparr>broadcast := (broadcast h)\<lparr>buf := buf (broadcast h) @ [msg]\<rparr>\<rparr>, []))
   \<and> clients (fst (Broadcast h msg)) = clients h
   \<and> length (buf (broadcast (hubRun ops))) \<le> 256"
proof -
  have a: "chan_full (broadcast h) \<longrightarrow> Broadcast h msg = (h, [drop_log])"
    by (simp add: Broadcast_def try_send_def)
  have b: "\<not> chan_full (broadcast h) \<longrightarrow>
        Broadcast h msg =
          (h\<lparr>broadcast := (broadcast h)\<lparr>buf := buf (broadcast h) @ [msg]\<rparr>\<rparr>, [])"
    by (simp add: Broadcast_def try_send_def)
  have c: "clients (fst (Broadcast h msg)) = clients h"
    by (simp add: Broadcast_def try_send_def)
  from a b c hubRun_bounded [of ops] show ?thesis by blast
qed

theorem Broadcast_full_drops_witness:
  "chan_full (broadcast (NewWebSocketHub\<lparr>broadcast := \<lparr>buf = replicate 256 \<lparr>msg_Type = ''share'', msg_Data = (0::nat)\<rparr>, cap = 256\<rparr>\<rparr>))
   \<and> Broadcast (NewWebSocketHub\<lparr>broadcast := \<lparr>buf = replicate 256 \<lparr>msg_Type = ''share'', msg_Data = (0::nat)\<rparr>, cap = 256\<rparr>\<rparr>)
        \<lparr>msg_Type = ''block'', msg_Data = 1\<rparr>
      = (NewWebSocketHub\<lparr>broadcast := \<lparr>buf = replicate 256 \<lparr>msg_Type = ''share'', msg_Data = (0::nat)\<rparr>, cap = 256\<rparr>\<rparr>, [drop_log])
   \<and> \<not> chan_full (broadcast (NewWebSocketHub :: nat WebSocketHub))
   \<and> Broadcast (NewWebSocketHub :: nat WebSocketHub) \<lparr>msg_Type = ''block'', msg_Data = 1\<rparr>
      = (NewWebSocketHub\<lparr>broadcast := \<lparr>buf = [\<lparr>msg_Type = ''block'', msg_Data = 1\<rparr>], cap = 256\<rparr>\<rparr>, [])"
proof -
  let ?full = "NewWebSocketHub\<lparr>broadcast := \<lparr>buf = replicate 256 \<lparr>msg_Type = ''share'', msg_Data = (0::nat)\<rparr>, cap = 256\<rparr>\<rparr>"
  let ?new = "NewWebSocketHub :: nat WebSocketHub"
  let ?m = "\<lparr>msg_Type = ''block'', msg_Data = (1::nat)\<rparr>"
  have f: "chan_full (broadcast ?full)"
    by (simp add: chan_full_def)
  have e: "\<not> chan_full (broadcast ?new)"
    by (simp add: chan_full_def NewWebSocketHub_def make_chan_def)
  from Broadcast_full_drops [of ?full ?m "[]"] f
  have a: "Broadcast ?full ?m = (?full, [drop_log])" by blast
  from Broadcast_full_drops [of ?new ?m "[]"] e
  have "Broadcast ?new ?m
          = (?new\<lparr>broadcast := (broadcast ?new)\<lparr>buf := buf (broadcast ?new) @ [?m]\<rparr>\<rparr>, [])"
    by blast
  moreover have "?new\<lparr>broadcast := (broadcast ?new)\<lparr>buf := buf (broadcast ?new) @ [?m]\<rparr>\<rparr>
          = ?new\<lparr>broadcast := \<lparr>buf = [?m], cap = 256\<rparr>\<rparr>"
    by (simp add: NewWebSocketHub_def make_chan_def)
  ultimately have b: "Broadcast ?new ?m = (?new\<lparr>broadcast := \<lparr>buf = [?m], cap = 256\<rparr>\<rparr>, [])"
    by (simp only:)
  from f a e b show ?thesis by blast
qed

section \<open>Properties of the alert cooldown\<close>

lemma strip_type_suffix:
  assumes "CHR '':'' \<notin> set s1" "CHR '':'' \<notin> set s2" "x @ CHR '':'' # s1 = y @ CHR '':'' # s2"
  shows "x = y \<and> s1 = s2"
proof -
  from assms(3) have "rev (x @ CHR '':'' # s1) = rev (y @ CHR '':'' # s2)" by simp
  then have eq: "rev s1 @ CHR '':'' # rev x = rev s2 @ CHR '':'' # rev y" by simp
  have a: "takeWhile (\<lambda>c. c \<noteq> CHR '':'') (rev s1 @ CHR '':'' # rev x) = rev s1"
    using assms(1) by (auto simp: takeWhile_tail)
  have b: "takeWhile (\<lambda>c. c \<noteq> CHR '':'') (rev s2 @ CHR '':'' # rev y) = rev s2"
    using assms(2) by (auto simp: takeWhile_tail)
  from eq a b have "rev s1 = rev s2" by simp
  then have s: "s1 = s2" by simp
  with assms(3) show ?thesis by simp
qed

lemma alertTypeString_no_colon: "CHR '':'' \<notin> set (alertTypeString t)"
  by (cases t) simp_all

lemma alertTypeString_inj: "alertTypeString t = alertTypeString u \<Longrightarrow> t = u"
  by (cases t; cases u) simp_all

lemma cooldownKey_inj:
  "cooldownKey a = cooldownKey b \<longleftrightarrow> alert_MinerIP a = alert_MinerIP b \<and> alert_Type a = alert_Type b"
proof
  assume "cooldownKey a = cooldownKey b"
  then have "alert_MinerIP a @ CHR '':'' # alertTypeString (alert_Type a)
           = alert_MinerIP b @ CHR '':'' # alertTypeString (alert_Type b)"
    by (simp add: cooldownKey_def)
  from strip_type_suffix [OF alertTypeString_no_colon alertTypeString_no_colon this]
  show "alert_MinerIP a = alert_MinerIP b \<and> alert_Type a = alert_Type b"
    by (auto dest: alertTypeString_inj)
next
  assume "alert_MinerIP a = alert_MinerIP b \<and> alert_Type a = alert_Type b"
  then show "cooldownKey a = cooldownKey b" by (simp add: cooldownKey_def)
qed


lemma sendAlert_other_key:
  "k \<noteq> cooldownKey a \<Longrightarrow> alertCooldown (fst (sendAlert e a now)) k = alertCooldown e k"
  by (simp add: sendAlert_def Let_def split: option.splits)

lemma sendAlert_fired_key:
  "sendAlert e a now = (e1, out) \<Longrightarrow> out \<noteq> [] \<Longrightarrow> alertCooldown e1 (cooldownKey a) = Some now"
  by (auto simp: sendAlert_def Let_def split: option.splits if_splits)

lemma sendAlert_config: "config (fst (sendAlert e a now)) = config e"
  by (simp add: sendAlert_def Let_def split: option.splits)

lemma sendAll_other_key:
  "\<forall>(x, t) \<in> set mid. cooldownKey x \<noteq> k \<Longrightarrow>
   alertCooldown (fst (sendAll e mid)) k = alertCooldown e k"
proof (induction mid arbitrary: e)
  case Nil
  then show ?case by simp
next
  case (Cons p mid)
  obtain a t where p: "p = (a, t)" by (cases p)
  obtain e1 o1 where s1: "sendAlert e a t = (e1, o1)" by (cases "sendAlert e a t")
  from Cons.prems p have k: "k \<noteq> cooldownKey a" and rest: "\<forall>(x, t) \<in> set mid. cooldownKey x \<noteq> k"
    by auto
  from sendAlert_other_key [OF k, of e t] s1 have "alertCooldown e1 k = alertCooldown e k"
    by simp
  moreover from Cons.IH [OF rest, of e1] have "alertCooldown (fst (sendAll e1 mid)) k = alertCooldown e1 k" .
  ultimately show ?case using p s1 by (cases "sendAll e1 mid") simp
qed

lemma sendAlert_gate:
  "alertCooldown e (cooldownKey b) = Some t1 \<Longrightarrow>
   sendAlert e b t2 =
     (if time_Since t2 t1 < 5 * time_Minute then (e, [])
      else (e\<lparr>alertCooldown := (alertCooldown e)(cooldownKey b \<mapsto> t2)\<rparr>, [deliver e b]))"
  by (simp add: sendAlert_def Let_def)

lemma CheckBlock_cooldown_free:
  "CheckBlock (e\<lparr>alertCooldown := cd\<rparr>) blk =
     (fst (CheckBlock e blk)\<lparr>alertCooldown := cd\<rparr>, snd (CheckBlock e blk))"
  by (simp add: CheckBlock_def deliver_def)

lemma CheckLeaderChange_cooldown_free:
  "CheckLeaderChange (e\<lparr>alertCooldown := cd\<rparr>) share ws =
     (fst (CheckLeaderChange e share ws)\<lparr>alertCooldown := cd\<rparr>, snd (CheckLeaderChange e share ws))"
  by (simp add: CheckLeaderChange_def weekReset_def deliver_def Let_def)

text \<open>
  Claim C2. Every alert that goes through \<^verbatim>\<open>sendAlert\<close> (all kinds except block-found
  and new-weekly-leader) is gated per (device, kind): once an alert of a pair has fired at
  \<open>t1\<close>, and whatever alerts of other pairs are handled in between, a new alert of the
  same pair at \<open>t2\<close> is dropped without any effect when less than five minutes have
  passed, and is delivered and recorded when five minutes or more have passed.
  \<^verbatim>\<open>CheckBlock\<close> and \<^verbatim>\<open>CheckLeaderChange\<close> neither read nor write the cooldown map.
\<close>

theorem cooldown_suppresses_within_window:
  assumes fired: "sendAlert e a t1 = (e1, out1)" "out1 \<noteq> []"
    and others: "\<forall>(x, t) \<in> set mid.
                   alert_MinerIP x \<noteq> alert_MinerIP a \<or> alert_Type x \<noteq> alert_Type a"
    and mid: "sendAll e1 mid = (e2, out2)"
    and same: "alert_MinerIP b = alert_MinerIP a" "alert_Type b = alert_Type a"
  shows "(time_Since t2 t1 < 5 * time_Minute \<longrightarrow> sendAlert e2 b t2 = (e2, []))
       \<and> (5 * time_Minute \<le> time_Since t2 t1 \<longrightarrow>
            sendAlert e2 b t2 =
              (e2\<lparr>alertCooldown := (alertCooldown e2)(cooldownKey b \<mapsto> t2)\<rparr>, [deliver e2 b]))
       \<and> CheckBlock (e2\<lparr>alertCooldown := cd\<rparr>) blk =
            (fst (CheckBlock e2 blk)\<lparr>alertCooldown := cd\<rparr>, snd (CheckBlock e2 blk))
       \<and> CheckLeaderChange (e2\<lparr>alertCooldown := cd\<rparr>) share ws =
            (fst (CheckLeaderChange e2 share ws)\<lparr>alertCooldown := cd\<rparr>,
             snd (CheckLeaderChange e2 share ws))"
proof -
  from same have key: "cooldownKey b = cooldownKey a"
    by (simp add: cooldownKey_inj)
  from others have "\<forall>(x, t) \<in> set mid. cooldownKey x \<noteq> cooldownKey a"
    by (auto simp: cooldownKey_inj)
  from sendAll_other_key [OF this, of e1] mid
  have "alertCooldown e2 (cooldownKey a) = alertCooldown e1 (cooldownKey a)" by simp
  with sendAlert_fired_key [OF fired] key
  have last: "alertCooldown e2 (cooldownKey b) = Some t1" by simp
  show ?thesis
    using sendAlert_gate [OF last, of t2]
    by (simp add: CheckBlock_cooldown_free CheckLeaderChange_cooldown_free)
qed


theorem cooldown_suppresses_within_window_witness:
  "snd (sendAlert (NewAlertEngine exampleConfig 0) (exampleAlert AlertTempHigh ''10.0.0.1'') 0) \<noteq> []
   \<and> time_Since (60 * time_Second) 0 < 5 * time_Minute
   \<and> snd (sendAlert
        (fst (sendAll (fst (sendAlert (NewAlertEngine exampleConfig 0) (exampleAlert AlertTempHigh ''10.0.0.1'') 0))
                 [(exampleAlert AlertFanLow ''10.0.0.1'', 1), (exampleAlert AlertTempHigh ''10.0.0.2'', 2)]))
        (exampleAlert AlertTempHigh ''10.0.0.1'') (60 * time_Second)) = []
   \<and> 5 * time_Minute \<le> time_Since (300 * time_Second) 0
   \<and> snd (sendAlert
        (fst (sendAll (fst (sendAlert (NewAlertEngine exampleConfig 0) (exampleAlert AlertTempHigh ''10.0.0.1'') 0))
                 [(exampleAlert AlertFanLow ''10.0.0.1'', 1), (exampleAlert AlertTempHigh ''10.0.0.2'', 2)]))
        (exampleAlert AlertTempHigh ''10.0.0.1'') (300 * time_Second))
      = [Logged (exampleAlert AlertTempHigh ''10.0.0.1'')]"
proof -
  let ?e = "NewAlertEngine exampleConfig 0"
  let ?a = "exampleAlert AlertTempHigh ''10.0.0.1''"
  let ?mid = "[(exampleAlert AlertFanLow ''10.0.0.1'', 1), (exampleAlert AlertTempHigh ''10.0.0.2'', 2)]"
  let ?e1 = "fst (sendAlert ?e ?a 0)"
  let ?e2 = "fst (sendAll ?e1 ?mid)"
  have h1: "sendAlert ?e ?a 0 = (?e1, snd (sendAlert ?e ?a 0))" by simp
  have h2: "snd (sendAlert ?e ?a 0) \<noteq> []"
    by (simp add: sendAlert_def NewAlertEngine_def Let_def)
  have h3: "\<forall>(x, t) \<in> set ?mid. alert_MinerIP x \<noteq> alert_MinerIP ?a \<or> alert_Type x \<noteq> alert_Type ?a"
    by (simp add: exampleAlert_def)
  have h4: "sendAll ?e1 ?mid = (?e2, snd (sendAll ?e1 ?mid))" by simp
  have w1: "time_Since (60 * time_Second) 0 < 5 * time_Minute"
    by (simp add: time_Since_def time_Minute_def time_Second_def maxDuration_def minDuration_def)
  have w2: "5 * time_Minute \<le> time_Since (300 * time_Second) 0"
    by (simp add: time_Since_def time_Minute_def time_Second_def maxDuration_def minDuration_def)
  have cfg: "config ?e2 = exampleConfig"
    by (simp add: sendAlert_def NewAlertEngine_def Let_def split: option.splits prod.splits)
  note t = cooldown_suppresses_within_window [OF h1 h2 h3 h4 refl refl]
  from t [of "60 * time_Second"] w1
  have c1: "snd (sendAlert ?e2 ?a (60 * time_Second)) = []" by simp
  from t [of "300 * time_Second"] w2
  have c2: "snd (sendAlert ?e2 ?a (300 * time_Second)) = [deliver ?e2 ?a]" by simp
  have "deliver ?e2 ?a = Logged ?a"
    by (simp only: deliver_def cfg) (simp add: exampleConfig_def)
  with c2 have c3: "snd (sendAlert ?e2 ?a (300 * time_Second)) = [Logged ?a]"
    by (simp only:)
  from h2 w1 c1 w2 c3 show ?thesis by blast
qed

section \<open>Properties of the alert rules\<close>

lemma gated_step_idle: "gated_step t ip e (e, [])"
  unfolding gated_step_def by (auto intro: exI [of _ "alertCooldown e"])

lemma alert_of_deliver: "alert_of (deliver e a) = a"
  by (simp add: deliver_def)

lemma gated_step_sendAlert:
  "gated_step (alert_Type a) (alert_MinerIP a) e (sendAlert e a now)"
proof (cases "snd (sendAlert e a now) = []")
  case True
  then have "sendAlert e a now = (e, [])"
    by (auto simp: sendAlert_def Let_def split: option.splits if_splits)
  then show ?thesis by (simp add: gated_step_idle)
next
  case False
  then have "sendAlert e a now = (e\<lparr>alertCooldown := (alertCooldown e)(cooldownKey a \<mapsto> now)\<rparr>, [deliver e a])"
    by (auto simp: sendAlert_def Let_def split: option.splits if_splits)
  then show ?thesis
    unfolding gated_step_def
    by (auto simp: alert_of_deliver cooldownKey_def intro!: exI [of _ "(alertCooldown e)(cooldownKey a \<mapsto> now)"])
qed

lemma key_inj:
  "ip @ '':'' @ alertTypeString t = ip' @ '':'' @ alertTypeString t' \<longleftrightarrow> ip = ip' \<and> t = t'"
  using strip_type_suffix [OF alertTypeString_no_colon alertTypeString_no_colon, of ip t ip' t']
  by (auto dest: alertTypeString_inj)

lemma gated_step_fields:
  assumes "gated_step t ip e r"
  shows "config (fst r) = config e" "lastSeen (fst r) = lastSeen e"
    "lastHashrate (fst r) = lastHashrate e" "lastBestDiff (fst r) = lastBestDiff e"
    "weeklyBestDiff (fst r) = weeklyBestDiff e" "weeklyLeader (fst r) = weeklyLeader e"
    "weekStart (fst r) = weekStart e"
  using assms unfolding gated_step_def by auto

lemma gated_step_cooldown_other:
  assumes "gated_step t ip e r" "t' \<noteq> t \<or> ip' \<noteq> ip"
  shows "alertCooldown (fst r) (ip' @ '':'' @ alertTypeString t') = alertCooldown e (ip' @ '':'' @ alertTypeString t')"
proof -
  from assms(2) have "ip' @ '':'' @ alertTypeString t' \<noteq> ip @ '':'' @ alertTypeString t"
    using key_inj [of ip' t' ip t] by blast
  with assms(1) show ?thesis unfolding gated_step_def by auto
qed

lemma gated_step_filter_other:
  assumes "gated_step t ip e r" "t' \<noteq> t"
  shows "filter (of_kind t') (snd r) = []"
  using assms unfolding gated_step_def of_kind_def by (auto simp: filter_empty_conv)

lemma gated_step_filter_same:
  assumes "gated_step t ip e r"
  shows "filter (of_kind t) (snd r) = snd r"
  using assms unfolding gated_step_def of_kind_def by (auto simp: filter_id_conv)

lemma gated_checkTemperature:
  "gated_step AlertTempHigh (snap_MinerIP s) e (checkTemperature e s now)"
  using gated_step_sendAlert [of "\<lparr>alert_Type = AlertTempHigh, alert_MinerIP = snap_MinerIP s,
              alert_MinerName = snap_Hostname s, alert_Value = snap_Temperature s,
              alert_Timestamp = now\<rparr>" e now]
  by (simp add: checkTemperature_def gated_step_idle)

lemma gated_checkHashrateDrop:
  "gated_step AlertHashrateDrop (snap_MinerIP s) e (checkHashrateDrop e s now)"
proof -
  have *: "gated_step AlertHashrateDrop (snap_MinerIP s) e
      (sendAlert e \<lparr>alert_Type = AlertHashrateDrop, alert_MinerIP = snap_MinerIP s,
              alert_MinerName = snap_Hostname s, alert_Value = v,
              alert_Timestamp = now\<rparr> now)" for v
    using gated_step_sendAlert [of "\<lparr>alert_Type = AlertHashrateDrop, alert_MinerIP = snap_MinerIP s,
              alert_MinerName = snap_Hostname s, alert_Value = v,
              alert_Timestamp = now\<rparr>" e now] by simp
  show ?thesis
    by (simp add: checkHashrateDrop_def Let_def gated_step_idle * split: option.splits)
qed

lemma gated_checkFanRPM:
  "gated_step AlertFanLow (snap_MinerIP s) e (checkFanRPM e s now)"
  using gated_step_sendAlert [of "\<lparr>alert_Type = AlertFanLow, alert_MinerIP = snap_MinerIP s,
              alert_MinerName = snap_Hostname s, alert_Value = of_int (snap_FanRPM s),
              alert_Timestamp = now\<rparr>" e now]
  by (simp add: checkFanRPM_def gated_step_idle)

lemma gated_checkWifiSignal:
  "gated_step AlertWifiWeak (snap_MinerIP s) e (checkWifiSignal e s now)"
  using gated_step_sendAlert [of "\<lparr>alert_Type = AlertWifiWeak, alert_MinerIP = snap_MinerIP s,
              alert_MinerName = snap_Hostname s, alert_Value = of_int (snap_WifiRSSI s),
              alert_Timestamp = now\<rparr>" e now]
  by (simp add: checkWifiSignal_def gated_step_idle)

lemma gated_checkPoolConnection:
  "gated_step AlertPoolDisconnected (snap_MinerIP s) e (checkPoolConnection e s now)"
  using gated_step_sendAlert [of "\<lparr>alert_Type = AlertPoolDisconnected, alert_MinerIP = snap_MinerIP s,
              alert_MinerName = snap_Hostname s, alert_Value = 0,
              alert_Timestamp = now\<rparr>" e now]
  by (simp add: checkPoolConnection_def gated_step_idle)

lemma gated_checkNewBestDiff:
  "gated_step AlertNewBestDiff (snap_MinerIP s) e (checkNewBestDiff e s now)"
  using gated_step_sendAlert [of "\<lparr>alert_Type = AlertNewBestDiff, alert_MinerIP = snap_MinerIP s,
              alert_MinerName = snap_Hostname s, alert_Value = snap_BestDiffSess s,
              alert_Timestamp = now\<rparr>" e now]
  by (simp add: checkNewBestDiff_def gated_step_idle split: option.splits)

lemma CheckSnapshot_stages:
  obtains e1 o1 e2 o2 e3 o3 e4 o4 e5 o5 e6 o6 where
    "checkTemperature (e\<lparr>lastSeen := (lastSeen e)(snap_MinerIP s \<mapsto> now)\<rparr>) s now = (e1, o1)"
    "checkHashrateDrop e1 s now = (e2, o2)"
    "checkFanRPM (e2\<lparr>lastHashrate := (lastHashrate e2)(snap_MinerIP s \<mapsto> snap_HashRate s)\<rparr>) s now = (e3, o3)"
    "checkWifiSignal e3 s now = (e4, o4)"
    "checkPoolConnection e4 s now = (e5, o5)"
    "checkNewBestDiff e5 s now = (e6, o6)"
    "CheckSnapshot e s now =
       (e6\<lparr>lastBestDiff := (lastBestDiff e6)(snap_MinerIP s \<mapsto> snap_BestDiffSess s)\<rparr>,
        o1 @ o2 @ o3 @ o4 @ o5 @ o6)"
proof -
  obtain e1 o1 where a1: "checkTemperature (e\<lparr>lastSeen := (lastSeen e)(snap_MinerIP s \<mapsto> now)\<rparr>) s now = (e1, o1)"
    by (cases "checkTemperature (e\<lparr>lastSeen := (lastSeen e)(snap_MinerIP s \<mapsto> now)\<rparr>) s now")
  obtain e2 o2 where a2: "checkHashrateDrop e1 s now = (e2, o2)"
    by (cases "checkHashrateDrop e1 s now")
  obtain e3 o3 where a3: "checkFanRPM (e2\<lparr>lastHashrate := (lastHashrate e2)(snap_MinerIP s \<mapsto> snap_HashRate s)\<rparr>) s now = (e3, o3)"
    by (cases "checkFanRPM (e2\<lparr>lastHashrate := (lastHashrate e2)(snap_MinerIP s \<mapsto> snap_HashRate s)\<rparr>) s now")
  obtain e4 o4 where a4: "checkWifiSignal e3 s now = (e4, o4)"
    by (cases "checkWifiSignal e3 s now")
  obtain e5 o5 where a5: "checkPoolConnection e4 s now = (e5, o5)"
    by (cases "checkPoolConnection e4 s now")
  obtain e6 o6 where a6: "checkNewBestDiff e5 s now = (e6, o6)"
    by (cases "checkNewBestDiff e5 s now")
  have "CheckSnapshot e s now =
       (e6\<lparr>lastBestDiff := (lastBestDiff e6)(snap_MinerIP s \<mapsto> snap_BestDiffSess s)\<rparr>,
        o1 @ o2 @ o3 @ o4 @ o5 @ o6)"
    by (simp add: CheckSnapshot_def Let_def a1 a2 a3 a4 a5 a6)
  with a1 a2 a3 a4 a5 a6 show ?thesis by (rule that)
qed

lemma checkHashrateDrop_snd_cong:
  assumes "config e' = config e" "lastHashrate e' (snap_MinerIP s) = lastHashrate e (snap_MinerIP s)"
    "alertCooldown e' (snap_MinerIP s @ '':'' @ alertTypeString AlertHashrateDrop)
       = alertCooldown e (snap_MinerIP s @ '':'' @ alertTypeString AlertHashrateDrop)"
  shows "snd (checkHashrateDrop e' s now) = snd (checkHashrateDrop e s now)"
  using assms
  by (simp add: checkHashrateDrop_def sendAlert_def cooldownKey_def deliver_def Let_def
           split: option.splits)

lemma checkFanRPM_snd_cong:
  assumes "config e' = config e"
    "alertCooldown e' (snap_MinerIP s @ '':'' @ alertTypeString AlertFanLow)
       = alertCooldown e (snap_MinerIP s @ '':'' @ alertTypeString AlertFanLow)"
  shows "snd (checkFanRPM e' s now) = snd (checkFanRPM e s now)"
  using assms
  by (simp add: checkFanRPM_def sendAlert_def cooldownKey_def deliver_def Let_def
           split: option.splits)

lemma CheckSnapshot_gated:
  obtains e1 o1 e2 o2 e3 o3 e4 o4 e5 o5 e6 o6 where
    "CheckSnapshot e s now =
       (e6\<lparr>lastBestDiff := (lastBestDiff e6)(snap_MinerIP s \<mapsto> snap_BestDiffSess s)\<rparr>,
        o1 @ o2 @ o3 @ o4 @ o5 @ o6)"
    "gated_step AlertTempHigh (snap_MinerIP s) (e\<lparr>lastSeen := (lastSeen e)(snap_MinerIP s \<mapsto> now)\<rparr>) (e1, o1)"
    "checkHashrateDrop e1 s now = (e2, o2)"
    "gated_step AlertHashrateDrop (snap_MinerIP s) e1 (e2, o2)"
    "checkFanRPM (e2\<lparr>lastHashrate := (lastHashrate e2)(snap_MinerIP s \<mapsto> snap_HashRate s)\<rparr>) s now = (e3, o3)"
    "gated_step AlertFanLow (snap_MinerIP s) (e2\<lparr>lastHashrate := (lastHashrate e2)(snap_MinerIP s \<mapsto> snap_HashRate s)\<rparr>) (e3, o3)"
    "gated_step AlertWifiWeak (snap_MinerIP s) e3 (e4, o4)"
    "gated_step AlertPoolDisconnected (snap_MinerIP s) e4 (e5, o5)"
    "gated_step AlertNewBestDiff (snap_MinerIP s) e5 (e6, o6)"
proof -
  let ?ip = "snap_MinerIP s"
  let ?e0 = "e\<lparr>lastSeen := (lastSeen e)(?ip \<mapsto> now)\<rparr>"
  obtain e1 o1 e2 o2 e3 o3 e4 o4 e5 o5 e6 o6 where
    a1: "checkTemperature ?e0 s now = (e1, o1)" and
    a2: "checkHashrateDrop e1 s now = (e2, o2)" and
    a3: "checkFanRPM (e2\<lparr>lastHashrate := (lastHashrate e2)(?ip \<mapsto> snap_HashRate s)\<rparr>) s now = (e3, o3)" and
    a4: "checkWifiSignal e3 s now = (e4, o4)" and
    a5: "checkPoolConnection e4 s now = (e5, o5)" and
    a6: "checkNewBestDiff e5 s now = (e6, o6)" and
    r: "CheckSnapshot e s now =
       (e6\<lparr>lastBestDiff := (lastBestDiff e6)(?ip \<mapsto> snap_BestDiffSess s)\<rparr>,
        o1 @ o2 @ o3 @ o4 @ o5 @ o6)"
    by (rule CheckSnapshot_stages)
  have g1: "gated_step AlertTempHigh ?ip ?e0 (e1, o1)"
    using gated_checkTemperature [of s ?e0 now] a1 by simp
  have g2: "gated_step AlertHashrateDrop ?ip e1 (e2, o2)"
    using gated_checkHashrateDrop [of s e1 now] a2 by simp
  have g3: "gated_step AlertFanLow ?ip (e2\<lparr>lastHashrate := (lastHashrate e2)(?ip \<mapsto> snap_HashRate s)\<rparr>) (e3, o3)"
    using gated_checkFanRPM [of s "e2\<lparr>lastHashrate := (lastHashrate e2)(?ip \<mapsto> snap_HashRate s)\<rparr>" now] a3
    by simp
  have g4: "gated_step AlertWifiWeak ?ip e3 (e4, o4)"
    using gated_checkWifiSignal [of s e3 now] a4 by simp
  have g5: "gated_step AlertPoolDisconnected ?ip e4 (e5, o5)"
    using gated_checkPoolConnection [of s e4 now] a5 by simp
  have g6: "gated_step AlertNewBestDiff ?ip e5 (e6, o6)"
    using gated_checkNewBestDiff [of s e5 now] a6 by simp
  from r g1 a2 g2 a3 g3 g4 g5 g6 show ?thesis by (rule that)
qed

lemma CheckSnapshot_filter_drop:
  "filter (of_kind AlertHashrateDrop) (snd (CheckSnapshot e s now)) = snd (checkHashrateDrop e s now)"
proof -
  let ?ip = "snap_MinerIP s"
  obtain e1 o1 e2 o2 e3 o3 e4 o4 e5 o5 e6 o6 where
    r: "CheckSnapshot e s now =
       (e6\<lparr>lastBestDiff := (lastBestDiff e6)(?ip \<mapsto> snap_BestDiffSess s)\<rparr>,
        o1 @ o2 @ o3 @ o4 @ o5 @ o6)" and
    g1: "gated_step AlertTempHigh ?ip (e\<lparr>lastSeen := (lastSeen e)(?ip \<mapsto> now)\<rparr>) (e1, o1)" and
    a2: "checkHashrateDrop e1 s now = (e2, o2)" and
    g2: "gated_step AlertHashrateDrop ?ip e1 (e2, o2)" and
    a3: "checkFanRPM (e2\<lparr>lastHashrate := (lastHashrate e2)(?ip \<mapsto> snap_HashRate s)\<rparr>) s now = (e3, o3)" and
    g3: "gated_step AlertFanLow ?ip (e2\<lparr>lastHashrate := (lastHashrate e2)(?ip \<mapsto> snap_HashRate s)\<rparr>) (e3, o3)" and
    g4: "gated_step AlertWifiWeak ?ip e3 (e4, o4)" and
    g5: "gated_step AlertPoolDisconnected ?ip e4 (e5, o5)" and
    g6: "gated_step AlertNewBestDiff ?ip e5 (e6, o6)"
    by (rule CheckSnapshot_gated)
  have f: "filter (of_kind AlertHashrateDrop) (o1 @ o2 @ o3 @ o4 @ o5 @ o6) = o2"
    using gated_step_filter_other [OF g1, of AlertHashrateDrop]
      gated_step_filter_same [OF g2]
      gated_step_filter_other [OF g3, of AlertHashrateDrop]
      gated_step_filter_other [OF g4, of AlertHashrateDrop]
      gated_step_filter_other [OF g5, of AlertHashrateDrop]
      gated_step_filter_other [OF g6, of AlertHashrateDrop]
    by simp
  have c: "config e1 = config e" "lastHashrate e1 = lastHashrate e"
    using gated_step_fields [OF g1] by simp_all
  have k: "alertCooldown e1 (?ip @ '':'' @ alertTypeString AlertHashrateDrop)
         = alertCooldown e (?ip @ '':'' @ alertTypeString AlertHashrateDrop)"
    using gated_step_cooldown_other [OF g1, of AlertHashrateDrop ?ip] by simp
  have "o2 = snd (checkHashrateDrop e s now)"
    using checkHashrateDrop_snd_cong [of e1 e s now] c k a2 by simp
  with f r show ?thesis by simp
qed

lemma CheckSnapshot_filter_fan:
  "filter (of_kind AlertFanLow) (snd (CheckSnapshot e s now)) = snd (checkFanRPM e s now)"
proof -
  let ?ip = "snap_MinerIP s"
  obtain e1 o1 e2 o2 e3 o3 e4 o4 e5 o5 e6 o6 where
    r: "CheckSnapshot e s now =
       (e6\<lparr>lastBestDiff := (lastBestDiff e6)(?ip \<mapsto> snap_BestDiffSess s)\<rparr>,
        o1 @ o2 @ o3 @ o4 @ o5 @ o6)" and
    g1: "gated_step AlertTempHigh ?ip (e\<lparr>lastSeen := (lastSeen e)(?ip \<mapsto> now)\<rparr>) (e1, o1)" and
    a2: "checkHashrateDrop e1 s now = (e2, o2)" and
    g2: "gated_step AlertHashrateDrop ?ip e1 (e2, o2)" and
    a3: "checkFanRPM (e2\<lparr>lastHashrate := (lastHashrate e2)(?ip \<mapsto> snap_HashRate s)\<rparr>) s now = (e3, o3)" and
    g3: "gated_step AlertFanLow ?ip (e2\<lparr>lastHashrate := (lastHashrate e2)(?ip \<mapsto> snap_HashRate s)\<rparr>) (e3, o3)" and
    g4: "gated_step AlertWifiWeak ?ip e3 (e4, o4)" and
    g5: "gated_step AlertPoolDisconnected ?ip e4 (e5, o5)" and
    g6: "gated_step AlertNewBestDiff ?ip e5 (e6, o6)"
    by (rule CheckSnapshot_gated)
  let ?e2 = "e2\<lparr>lastHashrate := (lastHashrate e2)(?ip \<mapsto> snap_HashRate s)\<rparr>"
  have f: "filter (of_kind AlertFanLow) (o1 @ o2 @ o3 @ o4 @ o5 @ o6) = o3"
    using gated_step_filter_other [OF g1, of AlertFanLow]
      gated_step_filter_other [OF g2, of AlertFanLow]
      gated_step_filter_same [OF g3]
      gated_step_filter_other [OF g4, of AlertFanLow]
      gated_step_filter_other [OF g5, of AlertFanLow]
      gated_step_filter_other [OF g6, of AlertFanLow]
    by simp
  have c: "config ?e2 = config e"
    using gated_step_fields(1) [OF g1] gated_step_fields(1) [OF g2] by simp
  have k: "alertCooldown ?e2 (?ip @ '':'' @ alertTypeString AlertFanLow)
         = alertCooldown e (?ip @ '':'' @ alertTypeString AlertFanLow)"
    using gated_step_cooldown_other [OF g1, of AlertFanLow ?ip]
      gated_step_cooldown_other [OF g2, of AlertFanLow ?ip] by simp
  have "o3 = snd (checkFanRPM e s now)"
    using checkFanRPM_snd_cong [of ?e2 e s now] c k a3 by simp
  with f r show ?thesis by simp
qed

lemma checkHashrateDrop_idle:
  "snd (checkHashrateDrop e s now) = [] \<Longrightarrow> fst (checkHashrateDrop e s now) = e"
  by (auto simp: checkHashrateDrop_def sendAlert_def Let_def split: option.splits if_splits)

lemma CheckSnapshot_state:
  "config (fst (CheckSnapshot e s now)) = config e"
  "lastSeen (fst (CheckSnapshot e s now)) = (lastSeen e)(snap_MinerIP s \<mapsto> now)"
  "lastHashrate (fst (CheckSnapshot e s now)) = (lastHashrate e)(snap_MinerIP s \<mapsto> snap_HashRate s)"
  "lastBestDiff (fst (CheckSnapshot e s now)) = (lastBestDiff e)(snap_MinerIP s \<mapsto> snap_BestDiffSess s)"
  "snd (checkHashrateDrop e s now) = [] \<Longrightarrow>
     alertCooldown (fst (CheckSnapshot e s now)) (snap_MinerIP s @ '':'' @ alertTypeString AlertHashrateDrop)
       = alertCooldown e (snap_MinerIP s @ '':'' @ alertTypeString AlertHashrateDrop)"
proof -
  let ?ip = "snap_MinerIP s"
  obtain e1 o1 e2 o2 e3 o3 e4 o4 e5 o5 e6 o6 where
    r: "CheckSnapshot e s now =
       (e6\<lparr>lastBestDiff := (lastBestDiff e6)(?ip \<mapsto> snap_BestDiffSess s)\<rparr>,
        o1 @ o2 @ o3 @ o4 @ o5 @ o6)" and
    g1: "gated_step AlertTempHigh ?ip (e\<lparr>lastSeen := (lastSeen e)(?ip \<mapsto> now)\<rparr>) (e1, o1)" and
    a2: "checkHashrateDrop e1 s now = (e2, o2)" and
    g2: "gated_step AlertHashrateDrop ?ip e1 (e2, o2)" and
    a3: "checkFanRPM (e2\<lparr>lastHashrate := (lastHashrate e2)(?ip \<mapsto> snap_HashRate s)\<rparr>) s now = (e3, o3)" and
    g3: "gated_step AlertFanLow ?ip (e2\<lparr>lastHashrate := (lastHashrate e2)(?ip \<mapsto> snap_HashRate s)\<rparr>) (e3, o3)" and
    g4: "gated_step AlertWifiWeak ?ip e3 (e4, o4)" and
    g5: "gated_step AlertPoolDisconnected ?ip e4 (e5, o5)" and
    g6: "gated_step AlertNewBestDiff ?ip e5 (e6, o6)"
    by (rule CheckSnapshot_gated)
  note f1 = gated_step_fields [OF g1] and f2 = gated_step_fields [OF g2]
    and f3 = gated_step_fields [OF g3] and f4 = gated_step_fields [OF g4]
    and f5 = gated_step_fields [OF g5] and f6 = gated_step_fields [OF g6]
  show "config (fst (CheckSnapshot e s now)) = config e"
    using r f1(1) f2(1) f3(1) f4(1) f5(1) f6(1) by simp
  show "lastSeen (fst (CheckSnapshot e s now)) = (lastSeen e)(?ip \<mapsto> now)"
    using r f1(2) f2(2) f3(2) f4(2) f5(2) f6(2) by simp
  show "lastHashrate (fst (CheckSnapshot e s now)) = (lastHashrate e)(?ip \<mapsto> snap_HashRate s)"
    using r f1(3) f2(3) f3(3) f4(3) f5(3) f6(3) by simp
  show "lastBestDiff (fst (CheckSnapshot e s now)) = (lastBestDiff e)(?ip \<mapsto> snap_BestDiffSess s)"
    using r f1(4) f2(4) f3(4) f4(4) f5(4) f6(4) by simp
  show "alertCooldown (fst (CheckSnapshot e s now)) (?ip @ '':'' @ alertTypeString AlertHashrateDrop)
       = alertCooldown e (?ip @ '':'' @ alertTypeString AlertHashrateDrop)"
    if idle: "snd (checkHashrateDrop e s now) = []"
  proof -
    let ?k = "?ip @ '':'' @ alertTypeString AlertHashrateDrop"
    have c: "config e1 = config e" "lastHashrate e1 = lastHashrate e"
      using f1 by simp_all
    have k1: "alertCooldown e1 ?k = alertCooldown e ?k"
      using gated_step_cooldown_other [OF g1, of AlertHashrateDrop ?ip] by simp
    have "snd (checkHashrateDrop e1 s now) = []"
      using checkHashrateDrop_snd_cong [of e1 e s now] c k1 idle by simp
    from checkHashrateDrop_idle [OF this] a2 have k2: "e2 = e1" by simp
    have k3: "alertCooldown e3 ?k = alertCooldown e2 ?k"
      using gated_step_cooldown_other [OF g3, of AlertHashrateDrop ?ip] by simp
    have k4: "alertCooldown e4 ?k = alertCooldown e3 ?k"
      using gated_step_cooldown_other [OF g4, of AlertHashrateDrop ?ip] by simp
    have k5: "alertCooldown e5 ?k = alertCooldown e4 ?k"
      using gated_step_cooldown_other [OF g5, of AlertHashrateDrop ?ip] by simp
    have k6: "alertCooldown e6 ?k = alertCooldown e5 ?k"
      using gated_step_cooldown_other [OF g6, of AlertHashrateDrop ?ip] by simp
    from r k1 k2 k3 k4 k5 k6 show ?thesis by simp
  qed
qed

lemma drop_alert_needs_previous:
  assumes "d \<in> set (snd (CheckSnapshot e s now))" "of_kind AlertHashrateDrop d"
  shows "\<exists>h. lastHashrate e (snap_MinerIP s) = Some h \<and> h > 0"
proof -
  from assms have "d \<in> set (filter (of_kind AlertHashrateDrop) (snd (CheckSnapshot e s now)))"
    by simp
  then have "d \<in> set (snd (checkHashrateDrop e s now))"
    by (simp only: CheckSnapshot_filter_drop)
  then show ?thesis
    by (auto simp: checkHashrateDrop_def split: option.splits if_splits)
qed

text \<open>
  Claim C3. For a device with no previous hashrate and no hashrate-drop cooldown entry
  (as in a new engine), with the drop threshold set to 20: a snapshot with hashrate 580
  followed by a snapshot with hashrate 300 produces, over both calls, exactly one
  hashrate-drop alert, and its value is ((580 - 300) / 580) * 100, which is within 0.05
  of 48.3. In any state, a hashrate-drop alert is produced only when the device has a
  previous hashrate and that hashrate is positive.
\<close>

theorem hashrate_drop_scenario:
  assumes cfg: "HashrateDropPercent (config e) = 20"
    and fresh: "lastHashrate e ip = None"
      "alertCooldown e (ip @ '':'' @ alertTypeString AlertHashrateDrop) = None"
    and s1: "snap_MinerIP s1 = ip" "snap_HashRate s1 = 580"
    and s2: "snap_MinerIP s2 = ip" "snap_HashRate s2 = 300"
    and r1: "CheckSnapshot e s1 t1 = (e1, out1)"
    and r2: "CheckSnapshot e1 s2 t2 = (e2, out2)"
  shows "filter (of_kind AlertHashrateDrop) (out1 @ out2) =
           [deliver e \<lparr>alert_Type = AlertHashrateDrop, alert_MinerIP = ip,
                       alert_MinerName = snap_Hostname s2,
                       alert_Value = ((580 - 300) / 580) * 100, alert_Timestamp = t2\<rparr>]
       \<and> \<bar>((580 - 300) / 580) * 100 - (48.3::real)\<bar> < 0.05
       \<and> (\<forall>d \<in> set (snd (CheckSnapshot e' s now)).
            of_kind AlertHashrateDrop d \<longrightarrow>
              (\<exists>h. lastHashrate e' (snap_MinerIP s) = Some h \<and> h > 0))"
proof -
  let ?k = "ip @ '':'' @ alertTypeString AlertHashrateDrop"
  have idle: "snd (checkHashrateDrop e s1 t1) = []"
    using fresh(1) s1(1) by (simp add: checkHashrateDrop_def)
  have f1: "filter (of_kind AlertHashrateDrop) out1 = []"
    using CheckSnapshot_filter_drop [of e s1 t1] r1 idle by simp
  have c1: "config e1 = config e"
    using CheckSnapshot_state(1) [of e s1 t1] r1 by simp
  have h1: "lastHashrate e1 ip = Some 580"
    using CheckSnapshot_state(3) [of e s1 t1] r1 s1 by simp
  have k1: "alertCooldown e1 ?k = None"
    using CheckSnapshot_state(5) [OF idle] r1 s1(1) fresh(2) by simp
  have "snd (checkHashrateDrop e1 s2 t2) =
          [deliver e1 \<lparr>alert_Type = AlertHashrateDrop, alert_MinerIP = ip,
                       alert_MinerName = snap_Hostname s2,
                       alert_Value = ((580 - 300) / 580) * 100, alert_Timestamp = t2\<rparr>]"
    using h1 k1 c1 cfg s2
    by (simp add: checkHashrateDrop_def sendAlert_def cooldownKey_def Let_def)
  moreover have "deliver e1 a = deliver e a" for a
    by (simp add: deliver_def c1)
  ultimately have f2: "filter (of_kind AlertHashrateDrop) out2 =
          [deliver e \<lparr>alert_Type = AlertHashrateDrop, alert_MinerIP = ip,
                       alert_MinerName = snap_Hostname s2,
                       alert_Value = ((580 - 300) / 580) * 100, alert_Timestamp = t2\<rparr>]"
    using CheckSnapshot_filter_drop [of e1 s2 t2] r2 by simp
  have v: "\<bar>((580 - 300) / 580) * 100 - (48.3::real)\<bar> < 0.05"
    by simp
  have g: "\<forall>d \<in> set (snd (CheckSnapshot e' s now)).
            of_kind AlertHashrateDrop d \<longrightarrow>
              (\<exists>h. lastHashrate e' (snap_MinerIP s) = Some h \<and> h > 0)"
    using drop_alert_needs_previous by blast
  from f1 f2 v g show ?thesis by simp
qed

theorem hashrate_drop_scenario_witness:
  "HashrateDropPercent (config (NewAlertEngine exampleConfig 0)) = 20
   \<and> lastHashrate (NewAlertEngine exampleConfig 0) ''10.0.0.1'' = None
   \<and> alertCooldown (NewAlertEngine exampleConfig 0) (''10.0.0.1'' @ '':'' @ alertTypeString AlertHashrateDrop) = None
   \<and> filter (of_kind AlertHashrateDrop)
        (snd (CheckSnapshot (NewAlertEngine exampleConfig 0) (exampleSnapshot ''10.0.0.1'' 580 4000) 0)
         @ snd (CheckSnapshot
                  (fst (CheckSnapshot (NewAlertEngine exampleConfig 0) (exampleSnapshot ''10.0.0.1'' 580 4000) 0))
                  (exampleSnapshot ''10.0.0.1'' 300 4000) (2 * time_Second)))
      = [Logged \<lparr>alert_Type = AlertHashrateDrop, alert_MinerIP = ''10.0.0.1'',
                 alert_MinerName = ''bitaxe'', alert_Value = 1400 / 29,
                 alert_Timestamp = 2 * time_Second\<rparr>]
   \<and> (\<exists>h. lastHashrate (fst (CheckSnapshot (NewAlertEngine exampleConfig 0) (exampleSnapshot ''10.0.0.1'' 580 4000) 0))
              (snap_MinerIP (exampleSnapshot ''10.0.0.1'' 300 4000)) = Some h \<and> h > 0)"
proof -
  let ?e = "NewAlertEngine exampleConfig 0"
  let ?s1 = "exampleSnapshot ''10.0.0.1'' 580 4000"
  let ?s2 = "exampleSnapshot ''10.0.0.1'' 300 4000"
  let ?e1 = "fst (CheckSnapshot ?e ?s1 0)"
  let ?a = "\<lparr>alert_Type = AlertHashrateDrop, alert_MinerIP = ''10.0.0.1'',
                 alert_MinerName = ''bitaxe'', alert_Value = 1400 / 29,
                 alert_Timestamp = 2 * time_Second\<rparr>"
  have h1: "HashrateDropPercent (config ?e) = 20"
    by (simp add: NewAlertEngine_def exampleConfig_def)
  have h2: "lastHashrate ?e ''10.0.0.1'' = None"
    by (simp add: NewAlertEngine_def)
  have h3: "alertCooldown ?e (''10.0.0.1'' @ '':'' @ alertTypeString AlertHashrateDrop) = None"
    by (simp add: NewAlertEngine_def)
  have h4: "snap_MinerIP ?s1 = ''10.0.0.1''" "snap_HashRate ?s1 = 580"
    "snap_MinerIP ?s2 = ''10.0.0.1''" "snap_HashRate ?s2 = 300"
    by (simp_all add: exampleSnapshot_def)
  have h5: "CheckSnapshot ?e ?s1 0 = (?e1, snd (CheckSnapshot ?e ?s1 0))" by simp
  have h6: "CheckSnapshot ?e1 ?s2 (2 * time_Second)
            = (fst (CheckSnapshot ?e1 ?s2 (2 * time_Second)), snd (CheckSnapshot ?e1 ?s2 (2 * time_Second)))"
    by simp
  have d: "deliver ?e a = Logged a" for a
    by (simp add: deliver_def NewAlertEngine_def exampleConfig_def)
  have n: "snap_Hostname ?s2 = ''bitaxe''" by (simp add: exampleSnapshot_def)
  have v: "((580 - 300) / 580) * 100 = (1400 / 29 :: real)" by simp
  note t = hashrate_drop_scenario [OF h1 h2 h3 h4 h5 h6, of ?e1 ?s2 "2 * time_Second"]
  from t have c1: "filter (of_kind AlertHashrateDrop)
        (snd (CheckSnapshot ?e ?s1 0) @ snd (CheckSnapshot ?e1 ?s2 (2 * time_Second))) = [Logged ?a]"
    by (simp only: d n v)
  from t have g: "\<forall>d \<in> set (snd (CheckSnapshot ?e1 ?s2 (2 * time_Second))).
         of_kind AlertHashrateDrop d \<longrightarrow>
           (\<exists>h. lastHashrate ?e1 (snap_MinerIP ?s2) = Some h \<and> h > 0)"
    by blast
  from c1 have "Logged ?a \<in> set (filter (of_kind AlertHashrateDrop)
        (snd (CheckSnapshot ?e ?s1 0) @ snd (CheckSnapshot ?e1 ?s2 (2 * time_Second))))"
    by (simp only: list.set_intros)
  moreover have "filter (of_kind AlertHashrateDrop) (snd (CheckSnapshot ?e ?s1 0)) = []"
    using CheckSnapshot_filter_drop [of ?e ?s1 0] h2 h4(1)
    by (simp add: checkHashrateDrop_def)
  ultimately have "Logged ?a \<in> set (snd (CheckSnapshot ?e1 ?s2 (2 * time_Second)))
      \<and> of_kind AlertHashrateDrop (Logged ?a)"
    by (simp add: of_kind_def)
  with g have c2: "\<exists>h. lastHashrate ?e1 (snap_MinerIP ?s2) = Some h \<and> h > 0"
    by blast
  from h1 h2 h3 c1 c2 show ?thesis by blast
qed

text \<open>
  Claim C6, as amended. With the fan check configured (floor above 0) and no cooldown of
  the device's low-fan alert running, \<^verbatim>\<open>CheckSnapshot\<close> produces a low-fan alert exactly
  when the snapshot's fan RPM is below the floor and above 0: a reading of 0 or less
  never alerts.
\<close>

theorem low_fan_alert_iff:
  assumes floor: "FanRPMBelow (config e) > 0"
    and ready: "\<forall>t. alertCooldown e (snap_MinerIP s @ '':'' @ alertTypeString AlertFanLow) = Some t
                  \<longrightarrow> 5 * time_Minute \<le> time_Since now t"
  shows "filter (of_kind AlertFanLow) (snd (CheckSnapshot e s now)) \<noteq> []
           \<longleftrightarrow> 0 < snap_FanRPM s \<and> snap_FanRPM s < FanRPMBelow (config e)"
proof -
  have "snd (checkFanRPM e s now) \<noteq> []
           \<longleftrightarrow> 0 < snap_FanRPM s \<and> snap_FanRPM s < FanRPMBelow (config e)"
    using floor ready
    by (auto simp: checkFanRPM_def sendAlert_def cooldownKey_def Let_def split: option.splits)
  then show ?thesis by (simp only: CheckSnapshot_filter_fan)
qed

theorem low_fan_alert_iff_witness:
  "FanRPMBelow (config (NewAlertEngine exampleConfig 0)) > 0
   \<and> alertCooldown (NewAlertEngine exampleConfig 0)
        (snap_MinerIP (exampleSnapshot ''10.0.0.1'' 580 800) @ '':'' @ alertTypeString AlertFanLow) = None
   \<and> 0 < snap_FanRPM (exampleSnapshot ''10.0.0.1'' 580 800)
   \<and> snap_FanRPM (exampleSnapshot ''10.0.0.1'' 580 800) < FanRPMBelow (config (NewAlertEngine exampleConfig 0))
   \<and> filter (of_kind AlertFanLow)
        (snd (CheckSnapshot (NewAlertEngine exampleConfig 0) (exampleSnapshot ''10.0.0.1'' 580 800) 0)) \<noteq> []
   \<and> filter (of_kind AlertFanLow)
        (snd (CheckSnapshot (NewAlertEngine exampleConfig 0) (exampleSnapshot ''10.0.0.1'' 580 4000) 0)) = []"
proof -
  let ?e = "NewAlertEngine exampleConfig 0"
  let ?s = "exampleSnapshot ''10.0.0.1'' 580 800"
  let ?s' = "exampleSnapshot ''10.0.0.1'' 580 4000"
  have h1: "FanRPMBelow (config ?e) > 0"
    by (simp add: NewAlertEngine_def exampleConfig_def)
  have k: "alertCooldown ?e (snap_MinerIP ?s @ '':'' @ alertTypeString AlertFanLow) = None"
    by (simp add: NewAlertEngine_def)
  have h2: "\<forall>t. alertCooldown ?e (snap_MinerIP ?s @ '':'' @ alertTypeString AlertFanLow) = Some t
          \<longrightarrow> 5 * time_Minute \<le> time_Since 0 t"
    by (simp add: NewAlertEngine_def)
  have h2': "\<forall>t. alertCooldown ?e (snap_MinerIP ?s' @ '':'' @ alertTypeString AlertFanLow) = Some t
          \<longrightarrow> 5 * time_Minute \<le> time_Since 0 t"
    by (simp add: NewAlertEngine_def)
  have h3: "0 < snap_FanRPM ?s" "snap_FanRPM ?s < FanRPMBelow (config ?e)"
    by (simp_all add: NewAlertEngine_def exampleConfig_def exampleSnapshot_def)
  have h4: "\<not> snap_FanRPM ?s' < FanRPMBelow (config ?e)"
    by (simp add: NewAlertEngine_def exampleConfig_def exampleSnapshot_def)
  from low_fan_alert_iff [OF h1 h2] h3
  have a: "filter (of_kind AlertFanLow) (snd (CheckSnapshot ?e ?s 0)) \<noteq> []" by blast
  from low_fan_alert_iff [OF h1 h2'] h4
  have b: "filter (of_kind AlertFanLow) (snd (CheckSnapshot ?e ?s' 0)) = []" by blast
  from h1 k h3 a b show ?thesis by blast
qed

text \<open>
  Claim C6 as stated fails: a snapshot with fan RPM 0 is below the floor of 1000, the check
  is configured and no cooldown is running, and no low-fan alert is produced.
\<close>

theorem low_fan_zero_rpm_counterexample:
  "FanRPMBelow (config (NewAlertEngine exampleConfig 0)) > 0
   \<and> alertCooldown (NewAlertEngine exampleConfig 0)
        (snap_MinerIP (exampleSnapshot ''10.0.0.1'' 580 0) @ '':'' @ alertTypeString AlertFanLow) = None
   \<and> snap_FanRPM (exampleSnapshot ''10.0.0.1'' 580 0) < FanRPMBelow (config (NewAlertEngine exampleConfig 0))
   \<and> filter (of_kind AlertFanLow)
        (snd (CheckSnapshot (NewAlertEngine exampleConfig 0) (exampleSnapshot ''10.0.0.1'' 580 0) 0)) = []"
proof -
  let ?e = "NewAlertEngine exampleConfig 0"
  let ?s = "exampleSnapshot ''10.0.0.1'' 580 0"
  have "snd (checkFanRPM ?e ?s 0) = []"
    by (simp add: checkFanRPM_def exampleSnapshot_def)
  then have "filter (of_kind AlertFanLow) (snd (CheckSnapshot ?e ?s 0)) = []"
    by (simp only: CheckSnapshot_filter_fan)
  then show ?thesis
    by (simp add: NewAlertEngine_def exampleConfig_def exampleSnapshot_def)
qed

lemma checkOfflineLoop_sound:
  "d \<in> set (snd (checkOfflineLoop th now ms e)) \<Longrightarrow>
   alert_Type (alert_of d) = AlertMinerOffline \<and>
   (\<exists>m \<in> set ms. miner_Enabled m \<and> alert_MinerIP (alert_of d) = miner_IP m \<and>
      (\<exists>seen. lastSeen e (miner_IP m) = Some seen \<and> time_Since now seen > th))"
proof (induction ms arbitrary: e)
  case Nil
  then show ?case by simp
next
  case (Cons m ms)
  show ?case
  proof (cases "miner_Enabled m \<and> (\<exists>seen. lastSeen e (miner_IP m) = Some seen \<and> time_Since now seen > th)")
    case False
    then have "checkOfflineLoop th now (m # ms) e = checkOfflineLoop th now ms e"
      by (auto split: option.splits)
    with Cons.prems Cons.IH [of e] show ?thesis by auto
  next
    case True
    then obtain seen where seen: "lastSeen e (miner_IP m) = Some seen" "time_Since now seen > th"
      and en: "miner_Enabled m" by blast
    let ?a = "\<lparr>alert_Type = AlertMinerOffline, alert_MinerIP = miner_IP m,
                alert_MinerName = miner_Hostname m, alert_Value = 0, alert_Timestamp = now\<rparr>"
    obtain e1 o1 where s1: "sendAlert e ?a now = (e1, o1)" by (cases "sendAlert e ?a now")
    obtain e2 o2 where s2: "checkOfflineLoop th now ms e1 = (e2, o2)"
      by (cases "checkOfflineLoop th now ms e1")
    have g: "gated_step AlertMinerOffline (miner_IP m) e (e1, o1)"
      using gated_step_sendAlert [of ?a e now] s1 by simp
    have ls: "lastSeen e1 = lastSeen e"
      using gated_step_fields(2) [OF g] by simp
    have out: "snd (checkOfflineLoop th now (m # ms) e) = o1 @ o2"
      using seen en s1 s2 by simp
    from Cons.prems out have "d \<in> set o1 \<or> d \<in> set o2" by simp
    then show ?thesis
    proof
      assume "d \<in> set o1"
      with g have "alert_Type (alert_of d) = AlertMinerOffline \<and> alert_MinerIP (alert_of d) = miner_IP m"
        unfolding gated_step_def by simp
      with seen en show ?thesis by auto
    next
      assume "d \<in> set o2"
      with s2 have "d \<in> set (snd (checkOfflineLoop th now ms e1))" by simp
      from Cons.IH [OF this] ls show ?thesis by auto
    qed
  qed
qed

lemma wrap64_id: "- (2 ^ 63) \<le> x \<Longrightarrow> x < 2 ^ 63 \<Longrightarrow> wrap64 x = x"
  by (simp add: wrap64_def)

text \<open>
  Claim C10. The offline sweep produces no alert for an address without a last-seen
  entry, and none for an address whose miners in the list are all disabled, whatever the
  instant of the sweep. Every alert it produces is a miner-offline alert for an enabled
  miner of the list that has a last-seen entry whose age exceeds the threshold, the
  offline check being configured; the threshold is the configured number of seconds (as
  nanoseconds) for every configured value up to 9223372036 seconds, the range in which
  the 64-bit product does not wrap.
\<close>

theorem offline_alert_only_when_seen_and_stale:
  "(lastSeen e ip = None \<longrightarrow>
      (\<forall>d \<in> set (snd (CheckOffline e ms now)). alert_MinerIP (alert_of d) \<noteq> ip))
   \<and> ((\<forall>m \<in> set ms. miner_IP m = ip \<longrightarrow> \<not> miner_Enabled m) \<longrightarrow>
      (\<forall>d \<in> set (snd (CheckOffline e ms now)). alert_MinerIP (alert_of d) \<noteq> ip))
   \<and> (\<forall>d \<in> set (snd (CheckOffline e ms now)).
        alert_Type (alert_of d) = AlertMinerOffline
        \<and> 0 < MinerOfflineSeconds (config e)
        \<and> (\<exists>m \<in> set ms. miner_Enabled m \<and> alert_MinerIP (alert_of d) = miner_IP m \<and>
             (\<exists>seen. lastSeen e (miner_IP m) = Some seen
                \<and> time_Since now seen > offlineThreshold (config e))))
   \<and> (0 < MinerOfflineSeconds (config e) \<and> MinerOfflineSeconds (config e) \<le> 9223372036 \<longrightarrow>
        offlineThreshold (config e) = MinerOfflineSeconds (config e) * 1000000000)"
proof -
  have main: "alert_Type (alert_of d) = AlertMinerOffline
        \<and> 0 < MinerOfflineSeconds (config e)
        \<and> (\<exists>m \<in> set ms. miner_Enabled m \<and> alert_MinerIP (alert_of d) = miner_IP m \<and>
             (\<exists>seen. lastSeen e (miner_IP m) = Some seen
                \<and> time_Since now seen > offlineThreshold (config e)))"
    if d: "d \<in> set (snd (CheckOffline e ms now))" for d
  proof -
    from d have pos: "0 < MinerOfflineSeconds (config e)"
      by (auto simp: CheckOffline_def split: if_splits)
    with d have "d \<in> set (snd (checkOfflineLoop (offlineThreshold (config e)) now ms e))"
      by (simp add: CheckOffline_def)
    from checkOfflineLoop_sound [OF this] pos show ?thesis by simp
  qed
  have a: "\<forall>d \<in> set (snd (CheckOffline e ms now)). alert_MinerIP (alert_of d) \<noteq> ip"
    if "lastSeen e ip = None"
    using main that by fastforce
  have b: "\<forall>d \<in> set (snd (CheckOffline e ms now)). alert_MinerIP (alert_of d) \<noteq> ip"
    if "\<forall>m \<in> set ms. miner_IP m = ip \<longrightarrow> \<not> miner_Enabled m"
    using main that by fastforce
  have c: "offlineThreshold (config e) = MinerOfflineSeconds (config e) * 1000000000"
    if "0 < MinerOfflineSeconds (config e)" "MinerOfflineSeconds (config e) \<le> 9223372036"
    using that by (simp add: offlineThreshold_def time_Second_def wrap64_id)
  from main a b c show ?thesis by blast
qed

theorem offline_alert_only_when_seen_and_stale_witness:
  "lastSeen ((NewAlertEngine exampleConfig 0)\<lparr>lastSeen := [''10.0.0.1'' \<mapsto> 0, ''10.0.0.2'' \<mapsto> 0]\<rparr>) ''10.0.0.3'' = None
   \<and> snd (CheckOffline ((NewAlertEngine exampleConfig 0)\<lparr>lastSeen := [''10.0.0.1'' \<mapsto> 0, ''10.0.0.2'' \<mapsto> 0]\<rparr>)
             [exampleMiner ''10.0.0.1'' True, exampleMiner ''10.0.0.2'' False, exampleMiner ''10.0.0.3'' True]
             (400 * time_Second))
      = [Logged \<lparr>alert_Type = AlertMinerOffline, alert_MinerIP = ''10.0.0.1'',
                 alert_MinerName = ''bitaxe'', alert_Value = 0, alert_Timestamp = 400 * time_Second\<rparr>]
   \<and> \<not> (\<exists>d \<in> set (snd (CheckOffline ((NewAlertEngine exampleConfig 0)\<lparr>lastSeen := [''10.0.0.1'' \<mapsto> 0, ''10.0.0.2'' \<mapsto> 0]\<rparr>)
             [exampleMiner ''10.0.0.1'' True, exampleMiner ''10.0.0.2'' False, exampleMiner ''10.0.0.3'' True]
             (400 * time_Second))).
         alert_MinerIP (alert_of d) = ''10.0.0.3'' \<or> alert_MinerIP (alert_of d) = ''10.0.0.2'')
   \<and> offlineThreshold (config ((NewAlertEngine exampleConfig 0)\<lparr>lastSeen := [''10.0.0.1'' \<mapsto> 0, ''10.0.0.2'' \<mapsto> 0]\<rparr>))
      = 300 * 1000000000"
proof -
  let ?e = "(NewAlertEngine exampleConfig 0)\<lparr>lastSeen := [''10.0.0.1'' \<mapsto> 0, ''10.0.0.2'' \<mapsto> 0]\<rparr>"
  let ?ms = "[exampleMiner ''10.0.0.1'' True, exampleMiner ''10.0.0.2'' False, exampleMiner ''10.0.0.3'' True]"
  let ?now = "400 * time_Second"
  have h1: "lastSeen ?e ''10.0.0.3'' = None" by simp
  have h2: "\<forall>m \<in> set ?ms. miner_IP m = ''10.0.0.2'' \<longrightarrow> \<not> miner_Enabled m"
    by (simp add: exampleMiner_def)
  have h3: "0 < MinerOfflineSeconds (config ?e) \<and> MinerOfflineSeconds (config ?e) \<le> 9223372036"
    by (simp add: NewAlertEngine_def exampleConfig_def)
  have th: "offlineThreshold (config ?e) = 300 * 1000000000"
    using offline_alert_only_when_seen_and_stale [of ?e "''10.0.0.3''" ?ms ?now] h3
    by (simp add: NewAlertEngine_def exampleConfig_def)
  have out: "snd (CheckOffline ?e ?ms ?now)
      = [Logged \<lparr>alert_Type = AlertMinerOffline, alert_MinerIP = ''10.0.0.1'',
                 alert_MinerName = ''bitaxe'', alert_Value = 0, alert_Timestamp = ?now\<rparr>]"
    by (simp add: CheckOffline_def offlineThreshold_def wrap64_def exampleMiner_def
          NewAlertEngine_def exampleConfig_def sendAlert_def cooldownKey_def deliver_def
          time_Since_def time_Second_def maxDuration_def minDuration_def Let_def)
  have n3: "\<forall>d \<in> set (snd (CheckOffline ?e ?ms ?now)). alert_MinerIP (alert_of d) \<noteq> ''10.0.0.3''"
    using offline_alert_only_when_seen_and_stale [of ?e "''10.0.0.3''" ?ms ?now] h1 by blast
  have n2: "\<forall>d \<in> set (snd (CheckOffline ?e ?ms ?now)). alert_MinerIP (alert_of d) \<noteq> ''10.0.0.2''"
    using offline_alert_only_when_seen_and_stale [of ?e "''10.0.0.2''" ?ms ?now] h2 by blast
  from h1 out n3 n2 th show ?thesis by blast
qed

lemma CheckLeaderChange_fires_iff:
  "OnNewLeader (config e) \<Longrightarrow>
   snd (CheckLeaderChange e share ws) \<noteq> [] \<longleftrightarrow>
     share_Difficulty share > weeklyBestDiff (weekReset e ws)
     \<and> weeklyLeader (weekReset e ws) \<noteq> []
     \<and> weeklyLeader (weekReset e ws) \<noteq> share_Hostname share"
  by (auto simp: CheckLeaderChange_def Let_def)

lemma CheckLeaderChange_kind:
  "d \<in> set (snd (CheckLeaderChange e share ws)) \<Longrightarrow> alert_Type (alert_of d) = AlertNewLeader"
  by (auto simp: CheckLeaderChange_def Let_def alert_of_deliver split: if_splits)

lemma initWeeklyLeader_fields:
  "weeklyLeader (initWeeklyLeader e hist ws) = snd (weeklyBestLoop hist (0, []))"
  "weeklyBestDiff (initWeeklyLeader e hist ws) = fst (weeklyBestLoop hist (0, []))"
  "weekStart (initWeeklyLeader e hist ws) = ws"
  "config (initWeeklyLeader e hist ws) = config e"
  by (simp_all add: initWeeklyLeader_def InitWeeklyLeader_def split: prod.splits)

text \<open>
  Claim C1, as amended. With the new-leader feature enabled, \<^verbatim>\<open>CheckLeaderChange\<close>
  emits an alert exactly when, after the weekly state has been reset if the week has
  changed, the share's difficulty strictly exceeds the recorded weekly best, a previous
  leader is recorded (its hostname is not empty) and that hostname differs from the
  share's hostname; every alert it emits is a new-leader alert. For the first share after
  a restart, in the week of the restart, the recorded best and leader are those of the
  stored history: the alert fires exactly when the share beats the best stored share of
  the week and that share belongs to another hostname.
\<close>

theorem new_leader_alert_iff:
  assumes "OnNewLeader (config e)"
  shows "(snd (CheckLeaderChange e share ws) \<noteq> [] \<longleftrightarrow>
            share_Difficulty share > weeklyBestDiff (weekReset e ws)
            \<and> weeklyLeader (weekReset e ws) \<noteq> []
            \<and> weeklyLeader (weekReset e ws) \<noteq> share_Hostname share)
       \<and> (\<forall>d \<in> set (snd (CheckLeaderChange e share ws)).
             alert_Type (alert_of d) = AlertNewLeader)
       \<and> (snd (CheckLeaderChange (initWeeklyLeader e hist ws) share ws) \<noteq> [] \<longleftrightarrow>
            share_Difficulty share > fst (weeklyBestLoop hist (0, []))
            \<and> snd (weeklyBestLoop hist (0, [])) \<noteq> []
            \<and> snd (weeklyBestLoop hist (0, [])) \<noteq> share_Hostname share)"
proof -
  let ?e0 = "initWeeklyLeader e hist ws"
  have on: "OnNewLeader (config ?e0)"
    using assms by (simp add: initWeeklyLeader_fields)
  have same: "weekReset ?e0 ws = ?e0"
    by (simp add: weekReset_def initWeeklyLeader_fields)
  show ?thesis
    using CheckLeaderChange_fires_iff [OF assms, of share ws]
      CheckLeaderChange_fires_iff [OF on, of share ws]
      CheckLeaderChange_kind [of _ e share ws]
    by (simp only: same initWeeklyLeader_fields) blast
qed

theorem new_leader_alert_iff_witness:
  "OnNewLeader (config ((NewAlertEngine exampleConfig 0)\<lparr>weeklyBestDiff := 100, weeklyLeader := ''alpha''\<rparr>))
   \<and> snd (CheckLeaderChange ((NewAlertEngine exampleConfig 0)\<lparr>weeklyBestDiff := 100, weeklyLeader := ''alpha''\<rparr>)
             (exampleShare ''10.0.0.2'' ''beta'' 200) 0) \<noteq> []
   \<and> snd (CheckLeaderChange ((NewAlertEngine exampleConfig 0)\<lparr>weeklyBestDiff := 100, weeklyLeader := ''alpha''\<rparr>)
             (exampleShare ''10.0.0.1'' ''alpha'' 200) 0) = []
   \<and> snd (CheckLeaderChange
             (initWeeklyLeader ((NewAlertEngine exampleConfig 0)\<lparr>weeklyBestDiff := 100, weeklyLeader := ''alpha''\<rparr>) [] 0)
             (exampleShare ''10.0.0.2'' ''beta'' 200) 0) = []"
proof -
  let ?e = "(NewAlertEngine exampleConfig 0)\<lparr>weeklyBestDiff := 100, weeklyLeader := ''alpha''\<rparr>"
  have on: "OnNewLeader (config ?e)"
    by (simp add: NewAlertEngine_def exampleConfig_def)
  have r: "weekReset ?e 0 = ?e"
    by (simp add: weekReset_def NewAlertEngine_def)
  have a: "snd (CheckLeaderChange ?e (exampleShare ''10.0.0.2'' ''beta'' 200) 0) \<noteq> []"
    using new_leader_alert_iff [OF on, of "exampleShare ''10.0.0.2'' ''beta'' 200" 0 "[]"]
    by (simp add: r) (simp add: exampleShare_def)
  have b: "snd (CheckLeaderChange ?e (exampleShare ''10.0.0.1'' ''alpha'' 200) 0) = []"
    using new_leader_alert_iff [OF on, of "exampleShare ''10.0.0.1'' ''alpha'' 200" 0 "[]"]
    by (simp add: r) (simp add: exampleShare_def)
  have c: "snd (CheckLeaderChange (initWeeklyLeader ?e [] 0) (exampleShare ''10.0.0.2'' ''beta'' 200) 0) = []"
    using new_leader_alert_iff [OF on, of "exampleShare ''10.0.0.2'' ''beta'' 200" 0 "[]"]
    by simp
  from on a b c show ?thesis by blast
qed

text \<open>
  Claim C1 as stated fails in its last part: after a restart seeded from a history in
  which \<open>alpha\<close> leads with difficulty 100, the first share processed, from \<open>beta\<close> with
  difficulty 200, does fire the new-leader alert.
\<close>

theorem first_share_after_restart_counterexample:
  "snd (CheckLeaderChange
          (initWeeklyLeader (NewAlertEngine exampleConfig 0)
             [Some (exampleShare ''10.0.0.1'' ''alpha'' 100)] 0)
          (exampleShare ''10.0.0.2'' ''beta'' 200) 0)
   = [Logged \<lparr>alert_Type = AlertNewLeader, alert_MinerIP = ''10.0.0.2'',
              alert_MinerName = ''beta'', alert_Value = 0, alert_Timestamp = 0\<rparr>]"
  by (simp add: CheckLeaderChange_def initWeeklyLeader_def InitWeeklyLeader_def weekReset_def
        NewAlertEngine_def exampleConfig_def exampleShare_def deliver_def Let_def)

section \<open>Properties of the session registry\<close>













section \<open>Properties of the share parser\<close>


























































end
